theory Spec2Isabelle
  imports Complex_Main
begin

section \<open>Vectors of the scene graph library\<close>

text \<open>
  The camera code works on \<^verbatim>\<open>osg::Vec3d\<close>, three \<^verbatim>\<open>double\<close> components. The type and
  its operators belong to OpenSceneGraph, not to the repository; they are written out here
  with their usual meaning. The operations of this section compute with exact reals: there
  is no rounding, no NaN and no infinity, and the one place where the code can leave the
  finite numbers, a division by \<^verbatim>\<open>0.0\<close>, is modelled by \<open>None\<close>. What is proved with them is
  proved of the geometry of the code. Section \<open>Rounded arithmetic\<close> repeats
  \<^verbatim>\<open>setViewportFrom\<close> with the rounding of the machine, and shows where the program on
  doubles leaves the exact results.
\<close>

datatype vec3 = Vec3d (vx: real) (vy: real) (vz: real)

definition X_AXIS :: vec3 where
  "X_AXIS = Vec3d 1 0 0"

definition Z_AXIS :: vec3 where
  "Z_AXIS = Vec3d 0 0 1"

text \<open>\<^verbatim>\<open>a + b\<close>, \<^verbatim>\<open>a - b\<close>, \<^verbatim>\<open>-a\<close> and \<^verbatim>\<open>a * s\<close> for a scalar \<^verbatim>\<open>s\<close>.\<close>

fun vplus :: "vec3 \<Rightarrow> vec3 \<Rightarrow> vec3" where
  "vplus (Vec3d a b c) (Vec3d d e f) = Vec3d (a + d) (b + e) (c + f)"

fun vminus :: "vec3 \<Rightarrow> vec3 \<Rightarrow> vec3" where
  "vminus (Vec3d a b c) (Vec3d d e f) = Vec3d (a - d) (b - e) (c - f)"

fun vneg :: "vec3 \<Rightarrow> vec3" where
  "vneg (Vec3d a b c) = Vec3d (- a) (- b) (- c)"

fun vscale :: "vec3 \<Rightarrow> real \<Rightarrow> vec3" where
  "vscale (Vec3d a b c) s = Vec3d (a * s) (b * s) (c * s)"

text \<open>\<^verbatim>\<open>a * b\<close> on two vectors is the dot product, \<^verbatim>\<open>a ^ b\<close> the cross product.\<close>

fun vdot :: "vec3 \<Rightarrow> vec3 \<Rightarrow> real" where
  "vdot (Vec3d a b c) (Vec3d d e f) = a * d + b * e + c * f"

fun vcross :: "vec3 \<Rightarrow> vec3 \<Rightarrow> vec3" where
  "vcross (Vec3d a b c) (Vec3d d e f) = Vec3d (b * f - c * e) (c * d - a * f) (a * e - b * d)"

fun vlength :: "vec3 \<Rightarrow> real" where
  "vlength (Vec3d a b c) = sqrt (a * a + b * b + c * c)"

text \<open>\<^verbatim>\<open>v.normalize()\<close> scales by the inverse of the length only when the length is positive.\<close>

definition vnormalize :: "vec3 \<Rightarrow> vec3" where
  "vnormalize v = (let norm = vlength v in if norm > 0 then vscale v (1 / norm) else v)"

text \<open>
  \<^verbatim>\<open>a / s\<close> divides every component by \<^verbatim>\<open>s\<close>. For \<^verbatim>\<open>s == 0.0\<close> every component of the result
  is an infinity or NaN; such a vector is \<open>None\<close>, and adding a finite vector to it leaves
  it so.
\<close>

fun vdiv :: "vec3 \<Rightarrow> real \<Rightarrow> vec3 option" where
  "vdiv (Vec3d a b c) s = (if s = 0 then None else Some (Vec3d (a / s) (b / s) (c / s)))"

definition vplus_opt :: "vec3 \<Rightarrow> vec3 option \<Rightarrow> vec3 option" where
  "vplus_opt a b = (case b of None \<Rightarrow> None | Some w \<Rightarrow> Some (vplus a w))"

section \<open>The camera pose\<close>

text \<open>
  Both operations start with \<^verbatim>\<open>myCameraManipulator->getInverseMatrix().getLookAt(lookFrom,
  lookAt, up)\<close> and end by handing three vectors back to the manipulator. The manipulator is
  OpenSceneGraph's. Modelled from the spec: the pose store of the external camera
  manipulator, \<^verbatim>\<open>getPose() -> (position, lookAt, up)\<close> and \<^verbatim>\<open>setPose(position, lookAt, up)\<close>,
  where reading back after a write returns the values just written.
\<close>

record pose =
  lookFrom :: vec3
  lookAt :: vec3
  up :: vec3

section \<open>setViewportFrom\<close>

text \<open>
  \<^verbatim>\<open>GUIOSGPerspectiveChanger::setViewportFrom(xPos, yPos, zPos)\<close>. The first branch overwrites
  components 0 and 1 of \<^verbatim>\<open>lookFrom\<close>; the second adds \<^verbatim>\<open>shift\<close>, whose third component keeps
  the zero of the default constructor. The division by \<^verbatim>\<open>dir.z()\<close> is reached only with
  \<^verbatim>\<open>dir.z() != 0\<close>. \<^verbatim>\<open>zPos\<close> is not read.
\<close>

definition groundTarget :: "vec3 \<Rightarrow> vec3 \<Rightarrow> vec3" where
  "groundTarget lf dir = (let factor = - vz lf / vz dir in vplus lf (vscale dir factor))"

definition setViewportFrom :: "real \<Rightarrow> real \<Rightarrow> real \<Rightarrow> pose \<Rightarrow> pose" where
  "setViewportFrom xPos yPos zPos p =
     (let dir = vminus (lookAt p) (lookFrom p) in
      if (vz dir > 0 \<and> vz (lookFrom p) \<ge> 0) \<or> vz dir = 0 then
        (let lf = Vec3d xPos yPos (vz (lookFrom p)) in
         \<lparr>lookFrom = lf, lookAt = vminus lf (Vec3d 0 0 1), up = up p\<rparr>)
      else
        (let gt = groundTarget (lookFrom p) dir;
             shift = Vec3d (xPos - vx gt) (yPos - vy gt) 0 in
         \<lparr>lookFrom = vplus (lookFrom p) shift, lookAt = vplus (lookAt p) shift, up = up p\<rparr>))"

text \<open>\<^verbatim>\<open>setViewport(zoom, xPos, yPos)\<close> forwards to \<^verbatim>\<open>setViewportFrom(xPos, yPos, 0.)\<close>.\<close>

definition setViewport :: "real \<Rightarrow> real \<Rightarrow> real \<Rightarrow> pose \<Rightarrow> pose" where
  "setViewport zoom xPos yPos p = setViewportFrom xPos yPos 0 p"


section \<open>Rounded arithmetic\<close>




text \<open>
  The vector operators with the rounding \<open>rnd\<close> applied to every component they compute.
  With \<open>rnd = fl64\<close> they are the operators of the machine, with the identity those of the
  exact model above.
\<close>

fun vplus_fl :: "(real \<Rightarrow> real) \<Rightarrow> vec3 \<Rightarrow> vec3 \<Rightarrow> vec3" where
  "vplus_fl rnd (Vec3d a b c) (Vec3d d e f) = Vec3d (rnd (a + d)) (rnd (b + e)) (rnd (c + f))"

fun vminus_fl :: "(real \<Rightarrow> real) \<Rightarrow> vec3 \<Rightarrow> vec3 \<Rightarrow> vec3" where
  "vminus_fl rnd (Vec3d a b c) (Vec3d d e f) = Vec3d (rnd (a - d)) (rnd (b - e)) (rnd (c - f))"

fun vscale_fl :: "(real \<Rightarrow> real) \<Rightarrow> vec3 \<Rightarrow> real \<Rightarrow> vec3" where
  "vscale_fl rnd (Vec3d a b c) s = Vec3d (rnd (a * s)) (rnd (b * s)) (rnd (c * s))"

text \<open>
  \<^verbatim>\<open>setViewportFrom\<close> once more, operation by operation as the source has them, each result
  rounded: the three subtractions of \<^verbatim>\<open>lookAt - lookFrom\<close>, the division of
  \<^verbatim>\<open>-lookFrom.z() / dir.z()\<close> (the negation is exact), the products and sums of
  \<^verbatim>\<open>lookFrom + dir * factor\<close>, the two subtractions of \<^verbatim>\<open>shift\<close>, and the sums of
  \<^verbatim>\<open>lookFrom += shift\<close> and \<^verbatim>\<open>lookAt += shift\<close>.
\<close>

definition groundTarget_fl :: "(real \<Rightarrow> real) \<Rightarrow> vec3 \<Rightarrow> vec3 \<Rightarrow> vec3" where
  "groundTarget_fl rnd lf dir =
     (let factor = rnd (- vz lf / vz dir) in vplus_fl rnd lf (vscale_fl rnd dir factor))"

definition setViewportFrom_fl :: "(real \<Rightarrow> real) \<Rightarrow> real \<Rightarrow> real \<Rightarrow> real \<Rightarrow> pose \<Rightarrow> pose" where
  "setViewportFrom_fl rnd xPos yPos zPos p =
     (let dir = vminus_fl rnd (lookAt p) (lookFrom p) in
      if (vz dir > 0 \<and> vz (lookFrom p) \<ge> 0) \<or> vz dir = 0 then
        (let lf = Vec3d xPos yPos (vz (lookFrom p)) in
         \<lparr>lookFrom = lf, lookAt = vminus_fl rnd lf (Vec3d 0 0 1), up = up p\<rparr>)
      else
        (let gt = groundTarget_fl rnd (lookFrom p) dir;
             shift = Vec3d (rnd (xPos - vx gt)) (rnd (yPos - vy gt)) 0 in
         \<lparr>lookFrom = vplus_fl rnd (lookFrom p) shift,
          lookAt = vplus_fl rnd (lookAt p) shift, up = up p\<rparr>))"

section \<open>centerTo\<close>

text \<open>
  Modelled from the spec: the macro \<^verbatim>\<open>DEG2RAD\<close> of \<^verbatim>\<open>utils/geom/GeomHelper.h\<close> is not among
  the sources; the spec takes \<open>halfFOV = verticalFOV / 2\<close> "converted to radians".
\<close>

definition DEG2RAD :: "real \<Rightarrow> real" where
  "DEG2RAD x = x * pi / 180"

text \<open>
  \<^verbatim>\<open>centerTo\<close> ends with \<^verbatim>\<open>setHomePosition(camUpdate, center, up)\<close> and \<^verbatim>\<open>home()\<close>, which
  makes the home position the pose of the camera. \<open>eye = None\<close> is a position whose
  components are not finite.
\<close>

record home_pose =
  eye :: "vec3 option"
  center :: vec3
  homeUp :: vec3

text \<open>
  The helper direction, lines 108 to 116: \<^verbatim>\<open>if (dir * osg::Z_AXIS != 0) orthoDir = -osg::X_AXIS;
  else { orthoDir[0] = -dir[1]; orthoDir[1] = dir[0]; }\<close> followed by \<^verbatim>\<open>orthoDir.normalize()\<close>.
  The third component of \<^verbatim>\<open>orthoDir\<close> keeps the zero of the default constructor.
\<close>

definition centerTo_orthoDir :: "vec3 \<Rightarrow> vec3" where
  "centerTo_orthoDir dir =
     vnormalize (if vdot dir Z_AXIS \<noteq> 0 then vneg X_AXIS else Vec3d (- vy dir) (vx dir) 0)"

text \<open>\<^verbatim>\<open>outerFov = dir * cos(halfFovy) + orthoDir * sin(halfFovy)\<close> with
  \<^verbatim>\<open>halfFovy = DEG2RAD(.5*fovy)\<close>; \<^verbatim>\<open>fovy\<close> is read from the projection matrix.\<close>

definition centerTo_outerFov :: "vec3 \<Rightarrow> real \<Rightarrow> vec3" where
  "centerTo_outerFov dir fovy =
     (let orthoDir = centerTo_orthoDir dir;
          halfFovy = DEG2RAD (0.5 * fovy) in
      vplus (vscale dir (cos halfFovy)) (vscale orthoDir (sin halfFovy)))"

text \<open>
  \<^verbatim>\<open>GUIOSGPerspectiveChanger::centerTo(pos, radius, applyZoom)\<close>; the \<^verbatim>\<open>Position\<close> argument,
  three \<^verbatim>\<open>double\<close> coordinates, is a \<^typ>\<open>vec3\<close>. The last expression is
  \<^verbatim>\<open>center + dir * sign * (outerFov ^ radiusVec).length() / (outerFov ^ dir).length()\<close>: the
  vector \<^verbatim>\<open>dir * sign * length\<close> is divided by the second length, with no test of the divisor.
\<close>

definition centerTo :: "pose \<Rightarrow> real \<Rightarrow> vec3 \<Rightarrow> real \<Rightarrow> bool \<Rightarrow> home_pose" where
  "centerTo p fovy pos radius applyZoom =
     (let dir = vminus (lookAt p) (lookFrom p);
          orthoDir = centerTo_orthoDir dir;
          center = Vec3d (vx pos) (vy pos) (vz pos);
          leftBorder = vplus center (vscale orthoDir radius);
          rightBorder = vminus center (vscale orthoDir radius);
          outerFov = centerTo_outerFov dir fovy;
          radiusVec = vminus leftBorder center;
          sign = (if vdot (vcross outerFov radiusVec) (vcross outerFov dir) > 0 then 1 else - 1);
          camUpdate = vplus_opt center
            (vdiv (vscale (vscale dir sign) (vlength (vcross outerFov radiusVec)))
                  (vlength (vcross outerFov dir)))
      in \<lparr>eye = camUpdate, center = center, homeUp = up p\<rparr>)"

section \<open>Rays and the ground plane\<close>

text \<open>
  The point where the ray that starts at \<open>origin\<close> and runs along \<open>dir\<close> meets the plane
  \<open>z = 0\<close>: the point \<open>origin + dir * t\<close> with \<open>t \<ge> 0\<close> whose third component is zero.
  There is none when the ray runs away from the plane (\<open>t < 0\<close>), and no single one when
  \<open>dir\<close> is horizontal. Lemma \<open>rayGround_iff\<close> below states this reading.
\<close>

definition rayGround :: "vec3 \<Rightarrow> vec3 \<Rightarrow> vec3 option" where
  "rayGround origin dir =
     (if vz dir = 0 then None
      else (let t = - vz origin / vz dir in
            if t < 0 then None else Some (vplus origin (vscale dir t))))"

section \<open>Doubles of the lookup tables\<close>

text \<open>
  The lookup tables of \<^verbatim>\<open>Visual.h\<close> and \<^verbatim>\<open>Signal.h\<close> store \<^verbatim>\<open>double\<close> values and only compare
  them, with \<^verbatim>\<open>==\<close> and \<^verbatim>\<open><\<close>; they do no arithmetic on the keys. What matters there is not
  rounding but the values a \<^verbatim>\<open>double\<close> can take besides numbers: the two infinities and NaN.
  \<^verbatim>\<open>==\<close> and \<^verbatim>\<open><\<close> are false as soon as one side is NaN.
\<close>

datatype double = Num real | PosInf | NegInf | NaN

fun double_eq :: "double \<Rightarrow> double \<Rightarrow> bool" where
  "double_eq NaN b = False"
| "double_eq a NaN = False"
| "double_eq a b = (a = b)"

fun double_less :: "double \<Rightarrow> double \<Rightarrow> bool" where
  "double_less NaN b = False"
| "double_less a NaN = False"
| "double_less PosInf b = False"
| "double_less a NegInf = False"
| "double_less NegInf b = True"
| "double_less a PosInf = True"
| "double_less (Num a) (Num b) = (a < b)"

text \<open>
  \<^verbatim>\<open>std::sort(first, last, comp)\<close>. The standard fixes the result only for a comparison that is
  a strict weak ordering, and then up to the order of equivalent elements. The model is the
  insertion sort that the GNU library runs on short ranges: each element in turn is moved
  towards the front past every element it is less than. It is driven by \<open>cmp\<close> alone, so it
  is also defined where \<open>cmp\<close> is no such ordering, as \<^verbatim>\<open><\<close> on keys with NaN. The part
  already sorted is kept with its last element first.
\<close>

fun linear_insert :: "('a \<Rightarrow> 'a \<Rightarrow> bool) \<Rightarrow> 'a \<Rightarrow> 'a list \<Rightarrow> 'a list" where
  "linear_insert cmp x [] = [x]"
| "linear_insert cmp x (y # ys) =
     (if cmp x y then y # linear_insert cmp x ys else x # y # ys)"

definition std_sort :: "('a \<Rightarrow> 'a \<Rightarrow> bool) \<Rightarrow> 'a list \<Rightarrow> 'a list" where
  "std_sort cmp xs = rev (fold (linear_insert cmp) xs [])"

section \<open>String utilities of the lookup tables\<close>

text \<open>
  \<^verbatim>\<open>Visual.h\<close> and \<^verbatim>\<open>Signal.h\<close> split their input with \<^verbatim>\<open>StringTokenizer\<close> and read numbers
  with \<^verbatim>\<open>StringUtils::toDouble\<close> (\<^verbatim>\<open>utils/common\<close>), which are not among the sources. Both
  are parameters of the model: any tokenizer, and any reader of numbers that either returns
  a \<^verbatim>\<open>double\<close> or throws.
\<close>

type_synonym tokenizer = "string \<Rightarrow> string \<Rightarrow> bool \<Rightarrow> string list"

type_synonym to_double = "string \<Rightarrow> double option"

text \<open>What can go wrong in the loop of \<^verbatim>\<open>parse\<close>: \<^verbatim>\<open>toDouble\<close> throws, or a read
  past the end of \<^verbatim>\<open>st1\<close>.\<close>

datatype parse_error = NumberFormat | OutOfRange

section \<open>AngleRefs\<close>

text \<open>\<^verbatim>\<open>class AngleRef\<close> of \<^verbatim>\<open>Visual.h\<close>: two \<^verbatim>\<open>double\<close> fields with their getters.\<close>

record AngleRef =
  myVelocity :: double
  myAngle :: double

definition Velocity :: "AngleRef \<Rightarrow> double" where
  "Velocity a = myVelocity a"

definition Angle :: "AngleRef \<Rightarrow> double" where
  "Angle a = myAngle a"

text \<open>\<^verbatim>\<open>class AngleRefs : public std::vector<AngleRef>\<close>.\<close>

type_synonym AngleRefs = "AngleRef list"

text \<open>\<^verbatim>\<open>exists\<close>: the loop over the indices from 0 returns at the first velocity that
  \<^verbatim>\<open>==\<close> finds equal.\<close>

primrec AngleRefs_exists :: "AngleRefs \<Rightarrow> double \<Rightarrow> bool" where
  "AngleRefs_exists [] velocity = False"
| "AngleRefs_exists (a # as) velocity =
     (if double_eq (Velocity a) velocity then True else AngleRefs_exists as velocity)"

text \<open>\<^verbatim>\<open>compare_asc\<close> is \<^verbatim>\<open><\<close> on the velocities, and \<^verbatim>\<open>sort_asc\<close> is \<^verbatim>\<open>std::sort\<close> with it.\<close>

definition AngleRefs_compare_asc :: "AngleRef \<Rightarrow> AngleRef \<Rightarrow> bool" where
  "AngleRefs_compare_asc x1 x2 = double_less (Velocity x1) (Velocity x2)"

definition AngleRefs_sort_asc :: "AngleRefs \<Rightarrow> AngleRefs" where
  "AngleRefs_sort_asc c = std_sort AngleRefs_compare_asc c"

definition AngleRefs_addSample :: "AngleRef \<Rightarrow> AngleRefs \<Rightarrow> AngleRefs" where
  "AngleRefs_addSample data c =
     AngleRefs_sort_asc (if \<not> AngleRefs_exists c (Velocity data) then c @ [data] else c)"

text \<open>
  \<^verbatim>\<open>can_parse\<close>. \<open>tok s delim True\<close> stands for \<^verbatim>\<open>StringTokenizer(s, delim, true).getVector()\<close>
  and \<open>toDouble s\<close> for \<^verbatim>\<open>StringUtils::toDouble(s)\<close>, \<open>None\<close> when it throws.
\<close>

primrec AngleRefs_can_parse_loop :: "tokenizer \<Rightarrow> to_double \<Rightarrow> string list \<Rightarrow> bool" where
  "AngleRefs_can_parse_loop tok toDouble [] = True"
| "AngleRefs_can_parse_loop tok toDouble (s # ss) =
     (let st1 = tok s '','' True in
      if length st1 = 2 then
        (case toDouble (st1 ! 0) of
           None \<Rightarrow> False
         | Some v \<Rightarrow>
            (case toDouble (st1 ! 1) of
               None \<Rightarrow> False
             | Some a \<Rightarrow> AngleRefs_can_parse_loop tok toDouble ss))
      else False)"

definition AngleRefs_can_parse :: "tokenizer \<Rightarrow> to_double \<Rightarrow> string \<Rightarrow> bool" where
  "AngleRefs_can_parse tok toDouble seq =
     AngleRefs_can_parse_loop tok toDouble (tok seq '';'' True)"

text \<open>
  \<^verbatim>\<open>parse\<close>. The loop reads \<^verbatim>\<open>st1[0]\<close> and \<^verbatim>\<open>st1[1]\<close> without a test of the size and calls
  \<^verbatim>\<open>toDouble\<close> outside any \<^verbatim>\<open>try\<close>; both failures are results of the model. The loop starts
  from the cleared container.
\<close>

primrec AngleRefs_parse_loop ::
  "tokenizer \<Rightarrow> to_double \<Rightarrow> string list \<Rightarrow> AngleRefs \<Rightarrow> parse_error + AngleRefs" where
  "AngleRefs_parse_loop tok toDouble [] c = Inr c"
| "AngleRefs_parse_loop tok toDouble (s # ss) c =
     (let st1 = tok s '','' True in
      if length st1 < 1 then Inl OutOfRange
      else case toDouble (st1 ! 0) of
        None \<Rightarrow> Inl NumberFormat
      | Some vec \<Rightarrow>
         if length st1 < 2 then Inl OutOfRange
         else case toDouble (st1 ! 1) of
           None \<Rightarrow> Inl NumberFormat
         | Some ang \<Rightarrow>
            AngleRefs_parse_loop tok toDouble ss
              (AngleRefs_addSample \<lparr>myVelocity = vec, myAngle = ang\<rparr> c))"

definition AngleRefs_parse ::
  "tokenizer \<Rightarrow> to_double \<Rightarrow> string \<Rightarrow> AngleRefs \<Rightarrow> parse_error + AngleRefs" where
  "AngleRefs_parse tok toDouble seq c =
     (if \<not> AngleRefs_can_parse tok toDouble seq \<or> seq = [] then Inr c
      else AngleRefs_parse_loop tok toDouble (tok seq '';'' True) [])"

text \<open>A sequence of calls on one container, each call working on what the last one left.\<close>

datatype AngleRefs_call = AngleRefs_AddSample AngleRef | AngleRefs_Parse string

fun AngleRefs_run ::
  "tokenizer \<Rightarrow> to_double \<Rightarrow> AngleRefs_call list \<Rightarrow> AngleRefs \<Rightarrow> parse_error + AngleRefs" where
  "AngleRefs_run tok toDouble [] c = Inr c"
| "AngleRefs_run tok toDouble (AngleRefs_AddSample data # calls) c =
     AngleRefs_run tok toDouble calls (AngleRefs_addSample data c)"
| "AngleRefs_run tok toDouble (AngleRefs_Parse seq # calls) c =
     (case AngleRefs_parse tok toDouble seq c of
        Inl e \<Rightarrow> Inl e
      | Inr c' \<Rightarrow> AngleRefs_run tok toDouble calls c')"

text \<open>
  A call brings no NaN key: the sample added has a velocity other than NaN, and no token of
  the string parsed has a first field that \<^verbatim>\<open>toDouble\<close> reads as NaN.
\<close>

fun AngleRefs_key_not_nan :: "tokenizer \<Rightarrow> to_double \<Rightarrow> AngleRefs_call \<Rightarrow> bool" where
  "AngleRefs_key_not_nan tok toDouble (AngleRefs_AddSample data) = (Velocity data \<noteq> NaN)"
| "AngleRefs_key_not_nan tok toDouble (AngleRefs_Parse seq) =
     list_all (\<lambda>s. case tok s '','' True of [] \<Rightarrow> True | k # ks \<Rightarrow> toDouble k \<noteq> Some NaN)
       (tok seq '';'' True)"
section \<open>ErrProbRefs\<close>

text \<open>\<^verbatim>\<open>class ErrProbRef\<close> of \<^verbatim>\<open>Signal.h\<close>: two \<^verbatim>\<open>double\<close> fields with their getters.\<close>

record ErrProbRef =
  myRef :: double
  myErrorProb :: double

definition Reference :: "ErrProbRef \<Rightarrow> double" where
  "Reference a = myRef a"

definition ErrorProbability :: "ErrProbRef \<Rightarrow> double" where
  "ErrorProbability a = myErrorProb a"

text \<open>\<^verbatim>\<open>class ErrProbRefs : public std::vector<ErrProbRef>\<close>.\<close>

type_synonym ErrProbRefs = "ErrProbRef list"

text \<open>\<^verbatim>\<open>exists\<close>: the loop over the indices from 0 returns at the first distance that
  \<^verbatim>\<open>==\<close> finds equal.\<close>

primrec ErrProbRefs_exists :: "ErrProbRefs \<Rightarrow> double \<Rightarrow> bool" where
  "ErrProbRefs_exists [] distance = False"
| "ErrProbRefs_exists (a # as) distance =
     (if double_eq (Reference a) distance then True else ErrProbRefs_exists as distance)"

text \<open>\<^verbatim>\<open>compare_asc\<close> is \<^verbatim>\<open><\<close> on the distances, and \<^verbatim>\<open>sort_asc\<close> is \<^verbatim>\<open>std::sort\<close> with it.\<close>

definition ErrProbRefs_compare_asc :: "ErrProbRef \<Rightarrow> ErrProbRef \<Rightarrow> bool" where
  "ErrProbRefs_compare_asc x1 x2 = double_less (Reference x1) (Reference x2)"

definition ErrProbRefs_sort_asc :: "ErrProbRefs \<Rightarrow> ErrProbRefs" where
  "ErrProbRefs_sort_asc c = std_sort ErrProbRefs_compare_asc c"

definition ErrProbRefs_addSample :: "ErrProbRef \<Rightarrow> ErrProbRefs \<Rightarrow> ErrProbRefs" where
  "ErrProbRefs_addSample data c =
     ErrProbRefs_sort_asc (if \<not> ErrProbRefs_exists c (Reference data) then c @ [data] else c)"

text \<open>
  \<^verbatim>\<open>can_parse\<close>. \<open>tok s delim True\<close> stands for \<^verbatim>\<open>StringTokenizer(s, delim, true).getVector()\<close>
  and \<open>toDouble s\<close> for \<^verbatim>\<open>StringUtils::toDouble(s)\<close>, \<open>None\<close> when it throws.
\<close>

primrec ErrProbRefs_can_parse_loop :: "tokenizer \<Rightarrow> to_double \<Rightarrow> string list \<Rightarrow> bool" where
  "ErrProbRefs_can_parse_loop tok toDouble [] = True"
| "ErrProbRefs_can_parse_loop tok toDouble (s # ss) =
     (let st1 = tok s '','' True in
      if length st1 = 2 then
        (case toDouble (st1 ! 0) of
           None \<Rightarrow> False
         | Some v \<Rightarrow>
            (case toDouble (st1 ! 1) of
               None \<Rightarrow> False
             | Some a \<Rightarrow> ErrProbRefs_can_parse_loop tok toDouble ss))
      else False)"

definition ErrProbRefs_can_parse :: "tokenizer \<Rightarrow> to_double \<Rightarrow> string \<Rightarrow> bool" where
  "ErrProbRefs_can_parse tok toDouble seq =
     ErrProbRefs_can_parse_loop tok toDouble (tok seq '';'' True)"

text \<open>
  \<^verbatim>\<open>parse\<close>. The loop reads \<^verbatim>\<open>st1[0]\<close> and \<^verbatim>\<open>st1[1]\<close> without a test of the size and calls
  \<^verbatim>\<open>toDouble\<close> outside any \<^verbatim>\<open>try\<close>; both failures are results of the model. The loop starts
  from the cleared container.
\<close>

primrec ErrProbRefs_parse_loop ::
  "tokenizer \<Rightarrow> to_double \<Rightarrow> string list \<Rightarrow> ErrProbRefs \<Rightarrow> parse_error + ErrProbRefs" where
  "ErrProbRefs_parse_loop tok toDouble [] c = Inr c"
| "ErrProbRefs_parse_loop tok toDouble (s # ss) c =
     (let st1 = tok s '','' True in
      if length st1 < 1 then Inl OutOfRange
      else case toDouble (st1 ! 0) of
        None \<Rightarrow> Inl NumberFormat
      | Some distv \<Rightarrow>
         if length st1 < 2 then Inl OutOfRange
         else case toDouble (st1 ! 1) of
           None \<Rightarrow> Inl NumberFormat
         | Some errProb \<Rightarrow>
            ErrProbRefs_parse_loop tok toDouble ss
              (ErrProbRefs_addSample \<lparr>myRef = distv, myErrorProb = errProb\<rparr> c))"

definition ErrProbRefs_parse ::
  "tokenizer \<Rightarrow> to_double \<Rightarrow> string \<Rightarrow> ErrProbRefs \<Rightarrow> parse_error + ErrProbRefs" where
  "ErrProbRefs_parse tok toDouble seq c =
     (if \<not> ErrProbRefs_can_parse tok toDouble seq \<or> seq = [] then Inr c
      else ErrProbRefs_parse_loop tok toDouble (tok seq '';'' True) [])"

text \<open>A sequence of calls on one container, each call working on what the last one left.\<close>

datatype ErrProbRefs_call = ErrProbRefs_AddSample ErrProbRef | ErrProbRefs_Parse string

fun ErrProbRefs_run ::
  "tokenizer \<Rightarrow> to_double \<Rightarrow> ErrProbRefs_call list \<Rightarrow> ErrProbRefs \<Rightarrow> parse_error + ErrProbRefs" where
  "ErrProbRefs_run tok toDouble [] c = Inr c"
| "ErrProbRefs_run tok toDouble (ErrProbRefs_AddSample data # calls) c =
     ErrProbRefs_run tok toDouble calls (ErrProbRefs_addSample data c)"
| "ErrProbRefs_run tok toDouble (ErrProbRefs_Parse seq # calls) c =
     (case ErrProbRefs_parse tok toDouble seq c of
        Inl e \<Rightarrow> Inl e
      | Inr c' \<Rightarrow> ErrProbRefs_run tok toDouble calls c')"

text \<open>
  A call brings no NaN key: the sample added has a distance other than NaN, and no token of
  the string parsed has a first field that \<^verbatim>\<open>toDouble\<close> reads as NaN.
\<close>

fun ErrProbRefs_key_not_nan :: "tokenizer \<Rightarrow> to_double \<Rightarrow> ErrProbRefs_call \<Rightarrow> bool" where
  "ErrProbRefs_key_not_nan tok toDouble (ErrProbRefs_AddSample data) = (Reference data \<noteq> NaN)"
| "ErrProbRefs_key_not_nan tok toDouble (ErrProbRefs_Parse seq) =
     list_all (\<lambda>s. case tok s '','' True of [] \<Rightarrow> True | k # ks \<Rightarrow> toDouble k \<noteq> Some NaN)
       (tok seq '';'' True)"

section \<open>Vector algebra\<close>





lemma vdiv_vscale: "vdiv v s = (if s = 0 then None else Some (vscale v (1 / s)))"
  by (cases v) simp

lemma vx_vplus: "vx (vplus a b) = vx a + vx b"
  by (cases a; cases b) simp

lemma vy_vplus: "vy (vplus a b) = vy a + vy b"
  by (cases a; cases b) simp


section \<open>The ground point\<close>



text \<open>\<^const>\<open>groundTarget\<close> is the only point of the line through \<open>lf\<close> along \<open>dir\<close> on the
  plane \<open>z = 0\<close>.\<close>

lemma groundTarget_line:
  assumes "vz dir \<noteq> 0"
  shows "vz (vplus lf (vscale dir t)) = 0 \<longleftrightarrow> t = - vz lf / vz dir"
  using assms by (cases lf; cases dir) (auto simp add: field_simps)

text \<open>\<^const>\<open>rayGround\<close> is the point of the ray, parameters \<open>t \<ge> 0\<close>, on the plane.\<close>

lemma rayGround_iff:
  assumes "vz dir \<noteq> 0"
  shows "rayGround origin dir = Some q \<longleftrightarrow>
         (\<exists>t\<ge>0. q = vplus origin (vscale dir t) \<and> vz q = 0)"
proof
  assume "rayGround origin dir = Some q"
  then have t: "0 \<le> - vz origin / vz dir"
    and q: "q = vplus origin (vscale dir (- vz origin / vz dir))"
    using assms by (auto simp add: rayGround_def Let_def split: if_splits)
  have "vz q = 0"
    unfolding q using groundTarget_line [OF assms, of origin "- vz origin / vz dir"] by simp
  with t q show "\<exists>t\<ge>0. q = vplus origin (vscale dir t) \<and> vz q = 0"
    by blast
next
  assume "\<exists>t\<ge>0. q = vplus origin (vscale dir t) \<and> vz q = 0"
  then obtain t where t: "0 \<le> t" and q: "q = vplus origin (vscale dir t)" and z: "vz q = 0"
    by blast
  from z have "t = - vz origin / vz dir"
    unfolding q using groundTarget_line [OF assms, of origin t] by simp
  with t q assms show "rayGround origin dir = Some q"
    by (simp add: rayGround_def Let_def)
qed


section \<open>The two branches of setViewportFrom\<close>





section \<open>Values of the rounding\<close>

























section \<open>The rounded setViewportFrom\<close>

text \<open>Without rounding the rounded operations are the exact ones.\<close>

lemma vplus_fl_exact: "vplus_fl (\<lambda>r. r) a b = vplus a b"
  by (cases a; cases b) simp

lemma vminus_fl_exact: "vminus_fl (\<lambda>r. r) a b = vminus a b"
  by (cases a; cases b) simp

lemma vscale_fl_exact: "vscale_fl (\<lambda>r. r) a s = vscale a s"
  by (cases a) simp

lemma setViewportFrom_fl_exact: "setViewportFrom_fl (\<lambda>r. r) x y z p = setViewportFrom x y z p"
  by (simp add: setViewportFrom_fl_def setViewportFrom_def groundTarget_fl_def groundTarget_def
      Let_def vplus_fl_exact vminus_fl_exact vscale_fl_exact)





section \<open>Properties of setViewportFrom\<close>

text \<open>
  Claim C3. \<^verbatim>\<open>setViewportFrom\<close> takes the bird view branch exactly when
  \<open>(dir.z > 0 and position.z >= 0) or dir.z == 0\<close> holds for the pose it reads; in that
  branch the new position is \<open>(x, y, position.z)\<close> and the new look-at point is the new
  position minus \<open>(0, 0, 1)\<close>, with the up vector kept. In every other case the pose is the
  old one moved by the horizontal shift.
\<close>

theorem setViewportFrom_bird_view:
  "setViewportFrom x y z p =
     (if (vz (vminus (lookAt p) (lookFrom p)) > 0 \<and> vz (lookFrom p) \<ge> 0)
          \<or> vz (vminus (lookAt p) (lookFrom p)) = 0
      then \<lparr>lookFrom = Vec3d x y (vz (lookFrom p)),
            lookAt = vminus (Vec3d x y (vz (lookFrom p))) (Vec3d 0 0 1),
            up = up p\<rparr>
      else \<lparr>lookFrom = vplus (lookFrom p)
                (Vec3d (x - vx (groundTarget (lookFrom p) (vminus (lookAt p) (lookFrom p))))
                       (y - vy (groundTarget (lookFrom p) (vminus (lookAt p) (lookFrom p)))) 0),
            lookAt = vplus (lookAt p)
                (Vec3d (x - vx (groundTarget (lookFrom p) (vminus (lookAt p) (lookFrom p))))
                       (y - vy (groundTarget (lookFrom p) (vminus (lookAt p) (lookFrom p)))) 0),
            up = up p\<rparr>)"
  by (simp add: setViewportFrom_def Let_def)

theorem setViewportFrom_bird_view_witness:
  "setViewportFrom 3 4 0 \<lparr>lookFrom = Vec3d 0 0 10, lookAt = Vec3d 1 0 10, up = Vec3d 0 0 1\<rparr>
     = \<lparr>lookFrom = Vec3d 3 4 10, lookAt = Vec3d 3 4 9, up = Vec3d 0 0 1\<rparr>
   \<and> setViewportFrom 3 4 0 \<lparr>lookFrom = Vec3d 0 0 10, lookAt = Vec3d 1 0 9, up = Vec3d 0 0 1\<rparr>
     = \<lparr>lookFrom = Vec3d (- 7) 4 10, lookAt = Vec3d (- 6) 4 9, up = Vec3d 0 0 1\<rparr>"
  using setViewportFrom_bird_view
      [of 3 4 0 "\<lparr>lookFrom = Vec3d 0 0 10, lookAt = Vec3d 1 0 10, up = Vec3d 0 0 1\<rparr>"]
    setViewportFrom_bird_view
      [of 3 4 0 "\<lparr>lookFrom = Vec3d 0 0 10, lookAt = Vec3d 1 0 9, up = Vec3d 0 0 1\<rparr>"]
  by (simp add: groundTarget_def)













section \<open>Properties of centerTo\<close>

text \<open>
  Claim C1. The claim asks for the horizontal perpendicular \<open>(-dir.y, dir.x, 0)\<close> whenever
  \<open>dir\<close> is not parallel to the vertical axis, as the comment "check if parallel to z" in
  the source does. The test in the source is \<^verbatim>\<open>dir * osg::Z_AXIS != 0\<close>, which holds for every
  direction with a vertical part. For \<open>dir = (1, 0, -1)\<close>, which is not parallel to the
  vertical axis (its cross product with it is not zero), the source takes the fixed axis
  \<open>(-1, 0, 0)\<close>, where the claim asks for \<open>(0, 1, 0)\<close>.
\<close>

theorem centerTo_orthoDir_oblique:
  "vcross (Vec3d 1 0 (- 1)) Z_AXIS \<noteq> Vec3d 0 0 0 \<and>
   centerTo_orthoDir (Vec3d 1 0 (- 1)) = Vec3d (- 1) 0 0 \<and>
   vnormalize (Vec3d (- vy (Vec3d 1 0 (- 1))) (vx (Vec3d 1 0 (- 1))) 0) = Vec3d 0 1 0"
  by (simp add: centerTo_orthoDir_def Z_AXIS_def X_AXIS_def vnormalize_def)





text \<open>
  Claim C8, as amended. \<^verbatim>\<open>centerTo\<close> has no test for degenerate geometry. When
  \<open>|outerFOV x dir| = 0\<close> it still hands a new pose to the camera: the look-at point is
  \<open>center\<close>, the up vector is the one read, and the position is the result of a division by
  zero, so not finite. \<^verbatim>\<open>setViewportFrom\<close> meets its degenerate case \<open>dir.z == 0\<close> with the
  bird view, which moves the camera above the target.
\<close>

theorem centerTo_degenerate:
  "(vlength (vcross (centerTo_outerFov (vminus (lookAt p) (lookFrom p)) fovy)
                    (vminus (lookAt p) (lookFrom p))) = 0
      \<longrightarrow> centerTo p fovy c radius applyZoom = \<lparr>eye = None, center = c, homeUp = up p\<rparr>)
   \<and> (vz (vminus (lookAt p) (lookFrom p)) = 0
      \<longrightarrow> setViewportFrom x y z p =
            \<lparr>lookFrom = Vec3d x y (vz (lookFrom p)),
             lookAt = Vec3d x y (vz (lookFrom p) - 1), up = up p\<rparr>)"
  by (simp add: centerTo_def Let_def vdiv_vscale vplus_opt_def setViewportFrom_def)

theorem centerTo_degenerate_witness:
  "centerTo \<lparr>lookFrom = Vec3d 1 2 3, lookAt = Vec3d 1 3 3, up = Vec3d 0 0 1\<rparr> 0
      (Vec3d 5 5 0) 1 False
     = \<lparr>eye = None, center = Vec3d 5 5 0, homeUp = Vec3d 0 0 1\<rparr>
   \<and> setViewportFrom 7 8 0 \<lparr>lookFrom = Vec3d 1 2 3, lookAt = Vec3d 1 3 3, up = Vec3d 0 0 1\<rparr>
     = \<lparr>lookFrom = Vec3d 7 8 3, lookAt = Vec3d 7 8 2, up = Vec3d 0 0 1\<rparr>"
proof -
  let ?p = "\<lparr>lookFrom = Vec3d 1 2 3, lookAt = Vec3d 1 3 3, up = Vec3d 0 0 1\<rparr>"
  have h: "vlength (vcross (centerTo_outerFov (vminus (lookAt ?p) (lookFrom ?p)) 0)
                    (vminus (lookAt ?p) (lookFrom ?p))) = 0"
    by (simp add: centerTo_outerFov_def centerTo_orthoDir_def Let_def DEG2RAD_def
        Z_AXIS_def X_AXIS_def vnormalize_def)
  have k: "vz (vminus (lookAt ?p) (lookFrom ?p)) = 0"
    by simp
  show ?thesis
    using centerTo_degenerate [where p = ?p and fovy = 0 and c = "Vec3d 5 5 0" and radius = 1
        and applyZoom = False and x = 7 and y = 8 and z = 0] h k
    by simp
qed

text \<open>
  Claim C8 as the spec words it fails: with a field of view of 0 degrees the outer ray of the
  view is the view direction itself, \<open>|outerFOV x dir| = 0\<close>, and \<^verbatim>\<open>centerTo\<close> replaces the
  pose of a camera at \<open>(0, 0, 10)\<close> looking at \<open>(0, 0, 9)\<close> instead of keeping it.
\<close>

theorem centerTo_degenerate_counterexample:
  "vlength (vcross (centerTo_outerFov (vminus (Vec3d 0 0 9) (Vec3d 0 0 10)) 0)
                   (vminus (Vec3d 0 0 9) (Vec3d 0 0 10))) = 0
   \<and> centerTo \<lparr>lookFrom = Vec3d 0 0 10, lookAt = Vec3d 0 0 9, up = Vec3d 0 1 0\<rparr> 0
        (Vec3d 5 5 0) 1 False
      = \<lparr>eye = None, center = Vec3d 5 5 0, homeUp = Vec3d 0 1 0\<rparr>
   \<and> \<lparr>eye = None, center = Vec3d 5 5 0, homeUp = Vec3d 0 1 0\<rparr>
      \<noteq> \<lparr>eye = Some (Vec3d 0 0 10), center = Vec3d 0 0 9, homeUp = Vec3d 0 1 0\<rparr>"
  by (simp add: centerTo_def centerTo_outerFov_def centerTo_orthoDir_def Let_def
      vplus_opt_def DEG2RAD_def Z_AXIS_def X_AXIS_def vnormalize_def)


section \<open>Comparison of doubles\<close>

lemma double_eq_iff: "v \<noteq> NaN \<Longrightarrow> double_eq a v \<longleftrightarrow> a = v"
  by (cases a; cases v) auto

lemma double_eq_NaN: "\<not> double_eq a NaN"
  by (cases a) auto

lemma double_less_irrefl: "\<not> double_less a a"
  by (cases a) auto

lemma double_less_trans: "double_less a b \<Longrightarrow> double_less b c \<Longrightarrow> double_less a c"
  by (cases a; cases b; cases c) auto

lemma double_less_total:
  "a \<noteq> NaN \<Longrightarrow> b \<noteq> NaN \<Longrightarrow> a \<noteq> b \<Longrightarrow> double_less a b \<or> double_less b a"
  by (cases a; cases b) auto

section \<open>Sorting with a comparison of keys\<close>

lemma set_linear_insert: "set (linear_insert cmp x ys) = insert x (set ys)"
  by (induction ys) auto

lemma set_fold_linear_insert: "set (fold (linear_insert cmp) xs rp) = set xs \<union> set rp"
  by (induction xs arbitrary: rp) (auto simp add: set_linear_insert)

lemma set_std_sort: "set (std_sort cmp xs) = set xs"
  by (simp add: std_sort_def set_fold_linear_insert)

text \<open>Inserting a key that is new and not NaN into descending keys without NaN keeps them
  descending.\<close>

lemma linear_insert_descending:
  fixes key :: "'a \<Rightarrow> double"
  assumes "sorted_wrt (\<lambda>a b. double_less (key b) (key a)) ys"
    and "key x \<noteq> NaN"
    and "\<forall>y\<in>set ys. key y \<noteq> NaN \<and> key y \<noteq> key x"
  shows "sorted_wrt (\<lambda>a b. double_less (key b) (key a))
           (linear_insert (\<lambda>a b. double_less (key a) (key b)) x ys)"
  using assms
proof (induction ys)
  case Nil
  then show ?case by simp
next
  case (Cons y ys)
  show ?case
  proof (cases "double_less (key x) (key y)")
    case True
    have "sorted_wrt (\<lambda>a b. double_less (key b) (key a))
            (linear_insert (\<lambda>a b. double_less (key a) (key b)) x ys)"
      using Cons.IH Cons.prems by simp
    then show ?thesis
      using True Cons.prems(1) by (auto simp add: set_linear_insert)
  next
    case False
    then have yx: "double_less (key y) (key x)"
      using Cons.prems(2,3) double_less_total [of "key x" "key y"] by auto
    then have "\<forall>z\<in>set ys. double_less (key z) (key x)"
      using Cons.prems(1) by (auto intro: double_less_trans)
    then show ?thesis
      using False yx Cons.prems(1) by simp
  qed
qed

lemma fold_linear_insert_descending:
  fixes key :: "'a \<Rightarrow> double"
  assumes "sorted_wrt (\<lambda>a b. double_less (key b) (key a)) rp"
    and "NaN \<notin> key ` set xs" and "NaN \<notin> key ` set rp"
    and "distinct (map key xs)" and "key ` set xs \<inter> key ` set rp = {}"
  shows "sorted_wrt (\<lambda>a b. double_less (key b) (key a))
           (fold (linear_insert (\<lambda>a b. double_less (key a) (key b))) xs rp)"
  using assms
proof (induction xs arbitrary: rp)
  case Nil
  then show ?case by simp
next
  case (Cons x xs)
  let ?rp = "linear_insert (\<lambda>a b. double_less (key a) (key b)) x rp"
  have "sorted_wrt (\<lambda>a b. double_less (key b) (key a)) ?rp"
  proof (rule linear_insert_descending [OF Cons.prems(1)])
    show "key x \<noteq> NaN"
      using Cons.prems(2) by auto
    show "\<forall>y\<in>set rp. key y \<noteq> NaN \<and> key y \<noteq> key x"
      using Cons.prems(3,5) by (auto simp add: image_iff)
  qed
  moreover have "NaN \<notin> key ` set xs" and "NaN \<notin> key ` set ?rp"
    using Cons.prems(2,3) by (auto simp add: set_linear_insert)
  moreover have "distinct (map key xs)" and "key ` set xs \<inter> key ` set ?rp = {}"
    using Cons.prems(4,5) by (auto simp add: set_linear_insert)
  ultimately show ?case
    using Cons.IH [of ?rp] by simp
qed

lemma std_sort_ascending:
  fixes key :: "'a \<Rightarrow> double"
  assumes "NaN \<notin> key ` set xs" and "distinct (map key xs)"
  shows "sorted_wrt (\<lambda>a b. double_less (key a) (key b))
           (std_sort (\<lambda>a b. double_less (key a) (key b)) xs)"
  using fold_linear_insert_descending [of key "[]" xs] assms
  by (simp add: std_sort_def sorted_wrt_rev)

lemma ascending_distinct:
  fixes key :: "'a \<Rightarrow> double"
  assumes "sorted_wrt (\<lambda>a b. double_less (key a) (key b)) xs"
  shows "distinct (map key xs)"
  using assms by (induction xs) (auto simp add: double_less_irrefl)

section \<open>The order of AngleRefs\<close>

lemma AngleRefs_compare_asc_eq:
  "AngleRefs_compare_asc = (\<lambda>a b. double_less (Velocity a) (Velocity b))"
  by (intro ext) (simp add: AngleRefs_compare_asc_def)

lemma AngleRefs_exists_iff:
  "AngleRefs_exists c v \<longleftrightarrow> (\<exists>a\<in>set c. double_eq (Velocity a) v)"
  by (induction c) auto

lemma AngleRefs_addSample_set:
  "AngleRefs_exists c (Velocity d) \<Longrightarrow> set (AngleRefs_addSample d c) = set c"
  by (simp add: AngleRefs_addSample_def AngleRefs_sort_asc_def set_std_sort)

text \<open>Ascending velocities without NaN stay so when a sample without NaN is added.\<close>

lemma AngleRefs_addSample_ascending:
  assumes s: "sorted_wrt AngleRefs_compare_asc c" and n: "NaN \<notin> Velocity ` set c"
    and d: "Velocity d \<noteq> NaN"
  shows "sorted_wrt AngleRefs_compare_asc (AngleRefs_addSample d c)
       \<and> NaN \<notin> Velocity ` set (AngleRefs_addSample d c)"
proof -
  have dc: "distinct (map Velocity c)"
    using s by (simp add: AngleRefs_compare_asc_eq ascending_distinct)
  show ?thesis
  proof (cases "AngleRefs_exists c (Velocity d)")
    case True
    then show ?thesis
      using dc n
      by (simp add: AngleRefs_addSample_def AngleRefs_sort_asc_def AngleRefs_compare_asc_eq
          std_sort_ascending set_std_sort)
  next
    case False
    then have "Velocity d \<notin> Velocity ` set c"
      using d by (auto simp add: AngleRefs_exists_iff double_eq_iff)
    then have "distinct (map Velocity (c @ [d]))" and "NaN \<notin> Velocity ` set (c @ [d])"
      using dc n d by auto
    then show ?thesis
      using False
      by (simp add: AngleRefs_addSample_def AngleRefs_sort_asc_def AngleRefs_compare_asc_eq
          std_sort_ascending set_std_sort del: set_append map_append)
  qed
qed

text \<open>The loop of \<^verbatim>\<open>parse\<close> cannot fail on tokens that \<^verbatim>\<open>can_parse\<close> accepted.\<close>

lemma AngleRefs_parse_loop_total:
  "AngleRefs_can_parse_loop tok toD toks \<Longrightarrow> \<exists>c'. AngleRefs_parse_loop tok toD toks c = Inr c'"
proof (induction toks arbitrary: c)
  case Nil
  then show ?case by simp
next
  case (Cons s ss)
  from Cons.prems obtain v a where len: "length (tok s '','' True) = 2"
    and v: "toD (tok s '','' True ! 0) = Some v"
    and a: "toD (tok s '','' True ! 1) = Some a"
    and rest: "AngleRefs_can_parse_loop tok toD ss"
    by (auto simp: Let_def split: if_splits option.splits)
  have "tok s '','' True \<noteq> []"
    using len by auto
  then show ?case
    using Cons.IH [OF rest] len v a by (simp add: Let_def)
qed

lemma AngleRefs_parse_loop_ascending:
  "AngleRefs_can_parse_loop tok toD toks \<Longrightarrow>
   list_all (\<lambda>s. case tok s '','' True of [] \<Rightarrow> True | k # ks \<Rightarrow> toD k \<noteq> Some NaN) toks \<Longrightarrow>
   sorted_wrt AngleRefs_compare_asc c \<Longrightarrow> NaN \<notin> Velocity ` set c \<Longrightarrow>
   \<exists>c'. AngleRefs_parse_loop tok toD toks c = Inr c'
      \<and> sorted_wrt AngleRefs_compare_asc c' \<and> NaN \<notin> Velocity ` set c'"
proof (induction toks arbitrary: c)
  case Nil
  then show ?case by simp
next
  case (Cons s ss)
  from Cons.prems(1) obtain v a where len: "length (tok s '','' True) = 2"
    and v: "toD (tok s '','' True ! 0) = Some v"
    and a: "toD (tok s '','' True ! 1) = Some a"
    and rest: "AngleRefs_can_parse_loop tok toD ss"
    by (auto simp: Let_def split: if_splits option.splits)
  from len obtain k ks where st: "tok s '','' True = k # ks"
    by (cases "tok s '','' True") auto
  have "v \<noteq> NaN"
    using Cons.prems(2) v st by auto
  then have "Velocity \<lparr>myVelocity = v, myAngle = a\<rparr> \<noteq> NaN"
    by (simp add: Velocity_def)
  from AngleRefs_addSample_ascending [OF Cons.prems(3,4) this]
  have "\<exists>c'. AngleRefs_parse_loop tok toD ss
          (AngleRefs_addSample \<lparr>myVelocity = v, myAngle = a\<rparr> c) = Inr c'
      \<and> sorted_wrt AngleRefs_compare_asc c' \<and> NaN \<notin> Velocity ` set c'"
    using Cons.IH [OF rest] Cons.prems(2) by simp
  moreover have "tok s '','' True \<noteq> []"
    using len by auto
  ultimately show ?case
    using len v a by (simp add: Let_def)
qed

lemma AngleRefs_parse_valid:
  assumes "AngleRefs_can_parse tok toD seq" and "seq \<noteq> []"
  shows "\<exists>c'. AngleRefs_parse tok toD seq c = Inr c' \<and> AngleRefs_parse tok toD seq [] = Inr c'"
proof -
  have cp: "AngleRefs_can_parse_loop tok toD (tok seq '';'' True)"
    using assms(1) by (simp add: AngleRefs_can_parse_def)
  show ?thesis
    using AngleRefs_parse_loop_total [OF cp, of "[]"] assms by (simp add: AngleRefs_parse_def)
qed

lemma AngleRefs_parse_invalid:
  "\<not> AngleRefs_can_parse tok toD seq \<or> seq = [] \<Longrightarrow> AngleRefs_parse tok toD seq c = Inr c"
  by (simp add: AngleRefs_parse_def)

lemma AngleRefs_parse_ascending:
  assumes "AngleRefs_key_not_nan tok toD (AngleRefs_Parse seq)"
    and "sorted_wrt AngleRefs_compare_asc c" and "NaN \<notin> Velocity ` set c"
  shows "\<exists>c'. AngleRefs_parse tok toD seq c = Inr c'
      \<and> sorted_wrt AngleRefs_compare_asc c' \<and> NaN \<notin> Velocity ` set c'"
proof (cases "\<not> AngleRefs_can_parse tok toD seq \<or> seq = []")
  case True
  then show ?thesis
    using assms by (simp add: AngleRefs_parse_invalid)
next
  case False
  then have cp: "AngleRefs_can_parse_loop tok toD (tok seq '';'' True)"
    by (simp add: AngleRefs_can_parse_def)
  have "\<exists>c'. AngleRefs_parse_loop tok toD (tok seq '';'' True) [] = Inr c'
      \<and> sorted_wrt AngleRefs_compare_asc c' \<and> NaN \<notin> Velocity ` set c'"
    using assms(1) by (intro AngleRefs_parse_loop_ascending [OF cp]) simp_all
  then show ?thesis
    using False by (simp add: AngleRefs_parse_def)
qed

lemma AngleRefs_run_ascending:
  "list_all (AngleRefs_key_not_nan tok toD) calls \<Longrightarrow>
   sorted_wrt AngleRefs_compare_asc c \<Longrightarrow> NaN \<notin> Velocity ` set c \<Longrightarrow>
   \<exists>c'. AngleRefs_run tok toD calls c = Inr c'
      \<and> sorted_wrt AngleRefs_compare_asc c' \<and> NaN \<notin> Velocity ` set c'"
proof (induction calls arbitrary: c)
  case Nil
  then show ?case by simp
next
  case (Cons call calls)
  have rest: "list_all (AngleRefs_key_not_nan tok toD) calls"
    using Cons.prems(1) by simp
  show ?case
  proof (cases call)
    case (AngleRefs_AddSample d)
    then have "Velocity d \<noteq> NaN"
      using Cons.prems(1) by simp
    from AngleRefs_addSample_ascending [OF Cons.prems(2,3) this] show ?thesis
      using Cons.IH [OF rest] AngleRefs_AddSample by simp
  next
    case (AngleRefs_Parse seq)
    then have "AngleRefs_key_not_nan tok toD (AngleRefs_Parse seq)"
      using Cons.prems(1) by simp
    from AngleRefs_parse_ascending [OF this Cons.prems(2,3)] obtain c1
      where p: "AngleRefs_parse tok toD seq c = Inr c1"
        and s: "sorted_wrt AngleRefs_compare_asc c1" and n: "NaN \<notin> Velocity ` set c1"
      by blast
    from Cons.IH [OF rest s n] show ?thesis
      using AngleRefs_Parse p by simp
  qed
qed

section \<open>The order of ErrProbRefs\<close>

lemma ErrProbRefs_compare_asc_eq:
  "ErrProbRefs_compare_asc = (\<lambda>a b. double_less (Reference a) (Reference b))"
  by (intro ext) (simp add: ErrProbRefs_compare_asc_def)

lemma ErrProbRefs_exists_iff:
  "ErrProbRefs_exists c v \<longleftrightarrow> (\<exists>a\<in>set c. double_eq (Reference a) v)"
  by (induction c) auto

lemma ErrProbRefs_addSample_set:
  "ErrProbRefs_exists c (Reference d) \<Longrightarrow> set (ErrProbRefs_addSample d c) = set c"
  by (simp add: ErrProbRefs_addSample_def ErrProbRefs_sort_asc_def set_std_sort)

text \<open>Ascending distances without NaN stay so when a sample without NaN is added.\<close>

lemma ErrProbRefs_addSample_ascending:
  assumes s: "sorted_wrt ErrProbRefs_compare_asc c" and n: "NaN \<notin> Reference ` set c"
    and d: "Reference d \<noteq> NaN"
  shows "sorted_wrt ErrProbRefs_compare_asc (ErrProbRefs_addSample d c)
       \<and> NaN \<notin> Reference ` set (ErrProbRefs_addSample d c)"
proof -
  have dc: "distinct (map Reference c)"
    using s by (simp add: ErrProbRefs_compare_asc_eq ascending_distinct)
  show ?thesis
  proof (cases "ErrProbRefs_exists c (Reference d)")
    case True
    then show ?thesis
      using dc n
      by (simp add: ErrProbRefs_addSample_def ErrProbRefs_sort_asc_def ErrProbRefs_compare_asc_eq
          std_sort_ascending set_std_sort)
  next
    case False
    then have "Reference d \<notin> Reference ` set c"
      using d by (auto simp add: ErrProbRefs_exists_iff double_eq_iff)
    then have "distinct (map Reference (c @ [d]))" and "NaN \<notin> Reference ` set (c @ [d])"
      using dc n d by auto
    then show ?thesis
      using False
      by (simp add: ErrProbRefs_addSample_def ErrProbRefs_sort_asc_def ErrProbRefs_compare_asc_eq
          std_sort_ascending set_std_sort del: set_append map_append)
  qed
qed

text \<open>The loop of \<^verbatim>\<open>parse\<close> cannot fail on tokens that \<^verbatim>\<open>can_parse\<close> accepted.\<close>

lemma ErrProbRefs_parse_loop_total:
  "ErrProbRefs_can_parse_loop tok toD toks \<Longrightarrow> \<exists>c'. ErrProbRefs_parse_loop tok toD toks c = Inr c'"
proof (induction toks arbitrary: c)
  case Nil
  then show ?case by simp
next
  case (Cons s ss)
  from Cons.prems obtain v a where len: "length (tok s '','' True) = 2"
    and v: "toD (tok s '','' True ! 0) = Some v"
    and a: "toD (tok s '','' True ! 1) = Some a"
    and rest: "ErrProbRefs_can_parse_loop tok toD ss"
    by (auto simp: Let_def split: if_splits option.splits)
  have "tok s '','' True \<noteq> []"
    using len by auto
  then show ?case
    using Cons.IH [OF rest] len v a by (simp add: Let_def)
qed

lemma ErrProbRefs_parse_loop_ascending:
  "ErrProbRefs_can_parse_loop tok toD toks \<Longrightarrow>
   list_all (\<lambda>s. case tok s '','' True of [] \<Rightarrow> True | k # ks \<Rightarrow> toD k \<noteq> Some NaN) toks \<Longrightarrow>
   sorted_wrt ErrProbRefs_compare_asc c \<Longrightarrow> NaN \<notin> Reference ` set c \<Longrightarrow>
   \<exists>c'. ErrProbRefs_parse_loop tok toD toks c = Inr c'
      \<and> sorted_wrt ErrProbRefs_compare_asc c' \<and> NaN \<notin> Reference ` set c'"
proof (induction toks arbitrary: c)
  case Nil
  then show ?case by simp
next
  case (Cons s ss)
  from Cons.prems(1) obtain v a where len: "length (tok s '','' True) = 2"
    and v: "toD (tok s '','' True ! 0) = Some v"
    and a: "toD (tok s '','' True ! 1) = Some a"
    and rest: "ErrProbRefs_can_parse_loop tok toD ss"
    by (auto simp: Let_def split: if_splits option.splits)
  from len obtain k ks where st: "tok s '','' True = k # ks"
    by (cases "tok s '','' True") auto
  have "v \<noteq> NaN"
    using Cons.prems(2) v st by auto
  then have "Reference \<lparr>myRef = v, myErrorProb = a\<rparr> \<noteq> NaN"
    by (simp add: Reference_def)
  from ErrProbRefs_addSample_ascending [OF Cons.prems(3,4) this]
  have "\<exists>c'. ErrProbRefs_parse_loop tok toD ss
          (ErrProbRefs_addSample \<lparr>myRef = v, myErrorProb = a\<rparr> c) = Inr c'
      \<and> sorted_wrt ErrProbRefs_compare_asc c' \<and> NaN \<notin> Reference ` set c'"
    using Cons.IH [OF rest] Cons.prems(2) by simp
  moreover have "tok s '','' True \<noteq> []"
    using len by auto
  ultimately show ?case
    using len v a by (simp add: Let_def)
qed

lemma ErrProbRefs_parse_valid:
  assumes "ErrProbRefs_can_parse tok toD seq" and "seq \<noteq> []"
  shows "\<exists>c'. ErrProbRefs_parse tok toD seq c = Inr c' \<and> ErrProbRefs_parse tok toD seq [] = Inr c'"
proof -
  have cp: "ErrProbRefs_can_parse_loop tok toD (tok seq '';'' True)"
    using assms(1) by (simp add: ErrProbRefs_can_parse_def)
  show ?thesis
    using ErrProbRefs_parse_loop_total [OF cp, of "[]"] assms by (simp add: ErrProbRefs_parse_def)
qed

lemma ErrProbRefs_parse_invalid:
  "\<not> ErrProbRefs_can_parse tok toD seq \<or> seq = [] \<Longrightarrow> ErrProbRefs_parse tok toD seq c = Inr c"
  by (simp add: ErrProbRefs_parse_def)

lemma ErrProbRefs_parse_ascending:
  assumes "ErrProbRefs_key_not_nan tok toD (ErrProbRefs_Parse seq)"
    and "sorted_wrt ErrProbRefs_compare_asc c" and "NaN \<notin> Reference ` set c"
  shows "\<exists>c'. ErrProbRefs_parse tok toD seq c = Inr c'
      \<and> sorted_wrt ErrProbRefs_compare_asc c' \<and> NaN \<notin> Reference ` set c'"
proof (cases "\<not> ErrProbRefs_can_parse tok toD seq \<or> seq = []")
  case True
  then show ?thesis
    using assms by (simp add: ErrProbRefs_parse_invalid)
next
  case False
  then have cp: "ErrProbRefs_can_parse_loop tok toD (tok seq '';'' True)"
    by (simp add: ErrProbRefs_can_parse_def)
  have "\<exists>c'. ErrProbRefs_parse_loop tok toD (tok seq '';'' True) [] = Inr c'
      \<and> sorted_wrt ErrProbRefs_compare_asc c' \<and> NaN \<notin> Reference ` set c'"
    using assms(1) by (intro ErrProbRefs_parse_loop_ascending [OF cp]) simp_all
  then show ?thesis
    using False by (simp add: ErrProbRefs_parse_def)
qed

lemma ErrProbRefs_run_ascending:
  "list_all (ErrProbRefs_key_not_nan tok toD) calls \<Longrightarrow>
   sorted_wrt ErrProbRefs_compare_asc c \<Longrightarrow> NaN \<notin> Reference ` set c \<Longrightarrow>
   \<exists>c'. ErrProbRefs_run tok toD calls c = Inr c'
      \<and> sorted_wrt ErrProbRefs_compare_asc c' \<and> NaN \<notin> Reference ` set c'"
proof (induction calls arbitrary: c)
  case Nil
  then show ?case by simp
next
  case (Cons call calls)
  have rest: "list_all (ErrProbRefs_key_not_nan tok toD) calls"
    using Cons.prems(1) by simp
  show ?case
  proof (cases call)
    case (ErrProbRefs_AddSample d)
    then have "Reference d \<noteq> NaN"
      using Cons.prems(1) by simp
    from ErrProbRefs_addSample_ascending [OF Cons.prems(2,3) this] show ?thesis
      using Cons.IH [OF rest] ErrProbRefs_AddSample by simp
  next
    case (ErrProbRefs_Parse seq)
    then have "ErrProbRefs_key_not_nan tok toD (ErrProbRefs_Parse seq)"
      using Cons.prems(1) by simp
    from ErrProbRefs_parse_ascending [OF this Cons.prems(2,3)] obtain c1
      where p: "ErrProbRefs_parse tok toD seq c = Inr c1"
        and s: "sorted_wrt ErrProbRefs_compare_asc c1" and n: "NaN \<notin> Reference ` set c1"
      by blast
    from Cons.IH [OF rest s n] show ?thesis
      using ErrProbRefs_Parse p by simp
  qed
qed

section \<open>Properties of the lookup tables\<close>

text \<open>
  Claim C9, as amended. Starting from the empty container of the constructor, every sequence
  of \<^verbatim>\<open>addSample\<close> and \<^verbatim>\<open>parse\<close> calls that brings no NaN key runs through and leaves
  \<^verbatim>\<open>AngleRefs\<close> strictly ascending in the velocity and \<^verbatim>\<open>ErrProbRefs\<close> strictly ascending in
  the distance, so no two entries have equal keys; and \<^verbatim>\<open>addSample\<close> with a key that \<^verbatim>\<open>exists\<close>
  finds in the container leaves the set of entries unchanged.
\<close>

theorem refs_ascending_without_nan:
  "(list_all (AngleRefs_key_not_nan tok toD) calls \<longrightarrow>
      (\<exists>c. AngleRefs_run tok toD calls [] = Inr c
          \<and> sorted_wrt AngleRefs_compare_asc c \<and> distinct (map Velocity c)))
   \<and> (AngleRefs_exists ca (Velocity d) \<longrightarrow> set (AngleRefs_addSample d ca) = set ca)
   \<and> (list_all (ErrProbRefs_key_not_nan tok toD) calls' \<longrightarrow>
      (\<exists>c. ErrProbRefs_run tok toD calls' [] = Inr c
          \<and> sorted_wrt ErrProbRefs_compare_asc c \<and> distinct (map Reference c)))
   \<and> (ErrProbRefs_exists ce (Reference e) \<longrightarrow> set (ErrProbRefs_addSample e ce) = set ce)"
proof -
  have a: "\<exists>c. AngleRefs_run tok toD calls [] = Inr c
          \<and> sorted_wrt AngleRefs_compare_asc c \<and> distinct (map Velocity c)"
    if "list_all (AngleRefs_key_not_nan tok toD) calls"
  proof -
    have "\<exists>c. AngleRefs_run tok toD calls [] = Inr c
          \<and> sorted_wrt AngleRefs_compare_asc c \<and> NaN \<notin> Velocity ` set c"
      by (rule AngleRefs_run_ascending [OF that]) simp_all
    then show ?thesis
      by (auto simp add: AngleRefs_compare_asc_eq dest: ascending_distinct)
  qed
  have e: "\<exists>c. ErrProbRefs_run tok toD calls' [] = Inr c
          \<and> sorted_wrt ErrProbRefs_compare_asc c \<and> distinct (map Reference c)"
    if "list_all (ErrProbRefs_key_not_nan tok toD) calls'"
  proof -
    have "\<exists>c. ErrProbRefs_run tok toD calls' [] = Inr c
          \<and> sorted_wrt ErrProbRefs_compare_asc c \<and> NaN \<notin> Reference ` set c"
      by (rule ErrProbRefs_run_ascending [OF that]) simp_all
    then show ?thesis
      by (auto simp add: ErrProbRefs_compare_asc_eq dest: ascending_distinct)
  qed
  show ?thesis
    using a e AngleRefs_addSample_set ErrProbRefs_addSample_set by blast
qed

text \<open>
  The tokenizer and the reader of numbers written out on the strings of one run: one sample
  is added, a valid string of two samples is parsed, which clears the container, and a sample
  with a key that is now there is added.
\<close>

theorem refs_ascending_without_nan_witness:
  "AngleRefs_run
      (\<lambda>s d b. if s = ''30,90;10,5'' then [''30,90'', ''10,5'']
                else if s = ''30,90'' then [''30'', ''90'']
                else if s = ''10,5'' then [''10'', ''5''] else [s])
      (\<lambda>s. if s = ''30'' then Some (Num 30) else if s = ''90'' then Some (Num 90)
            else if s = ''10'' then Some (Num 10) else if s = ''5'' then Some (Num 5) else None)
      [AngleRefs_AddSample \<lparr>myVelocity = Num 50, myAngle = Num 40\<rparr>,
       AngleRefs_Parse ''30,90;10,5'',
       AngleRefs_AddSample \<lparr>myVelocity = Num 30, myAngle = Num 1\<rparr>] []
     = Inr [\<lparr>myVelocity = Num 10, myAngle = Num 5\<rparr>, \<lparr>myVelocity = Num 30, myAngle = Num 90\<rparr>]
   \<and> set (AngleRefs_addSample \<lparr>myVelocity = Num 30, myAngle = Num 1\<rparr>
        [\<lparr>myVelocity = Num 10, myAngle = Num 5\<rparr>, \<lparr>myVelocity = Num 30, myAngle = Num 90\<rparr>])
     = set [\<lparr>myVelocity = Num 10, myAngle = Num 5\<rparr>, \<lparr>myVelocity = Num 30, myAngle = Num 90\<rparr>]
   \<and> ErrProbRefs_run
      (\<lambda>s d b. if s = ''30,90;10,5'' then [''30,90'', ''10,5'']
                else if s = ''30,90'' then [''30'', ''90'']
                else if s = ''10,5'' then [''10'', ''5''] else [s])
      (\<lambda>s. if s = ''30'' then Some (Num 30) else if s = ''90'' then Some (Num 90)
            else if s = ''10'' then Some (Num 10) else if s = ''5'' then Some (Num 5) else None)
      [ErrProbRefs_AddSample \<lparr>myRef = Num 50, myErrorProb = Num 40\<rparr>,
       ErrProbRefs_Parse ''30,90;10,5'',
       ErrProbRefs_AddSample \<lparr>myRef = Num 30, myErrorProb = Num 1\<rparr>] []
     = Inr [\<lparr>myRef = Num 10, myErrorProb = Num 5\<rparr>, \<lparr>myRef = Num 30, myErrorProb = Num 90\<rparr>]
   \<and> set (ErrProbRefs_addSample \<lparr>myRef = Num 30, myErrorProb = Num 1\<rparr>
        [\<lparr>myRef = Num 10, myErrorProb = Num 5\<rparr>, \<lparr>myRef = Num 30, myErrorProb = Num 90\<rparr>])
     = set [\<lparr>myRef = Num 10, myErrorProb = Num 5\<rparr>, \<lparr>myRef = Num 30, myErrorProb = Num 90\<rparr>]"
proof -
  let ?tok = "\<lambda>(s::string) (d::string) (b::bool).
                if s = ''30,90;10,5'' then [''30,90'', ''10,5'']
                else if s = ''30,90'' then [''30'', ''90'']
                else if s = ''10,5'' then [''10'', ''5''] else [s]"
  let ?toD = "\<lambda>s::string. if s = ''30'' then Some (Num 30) else if s = ''90'' then Some (Num 90)
            else if s = ''10'' then Some (Num 10) else if s = ''5'' then Some (Num 5) else None"
  let ?callsa = "[AngleRefs_AddSample \<lparr>myVelocity = Num 50, myAngle = Num 40\<rparr>,
       AngleRefs_Parse ''30,90;10,5'',
       AngleRefs_AddSample \<lparr>myVelocity = Num 30, myAngle = Num 1\<rparr>]"
  let ?callse = "[ErrProbRefs_AddSample \<lparr>myRef = Num 50, myErrorProb = Num 40\<rparr>,
       ErrProbRefs_Parse ''30,90;10,5'',
       ErrProbRefs_AddSample \<lparr>myRef = Num 30, myErrorProb = Num 1\<rparr>]"
  let ?ca = "[\<lparr>myVelocity = Num 10, myAngle = Num 5\<rparr>, \<lparr>myVelocity = Num 30, myAngle = Num 90\<rparr>]"
  let ?ce = "[\<lparr>myRef = Num 10, myErrorProb = Num 5\<rparr>, \<lparr>myRef = Num 30, myErrorProb = Num 90\<rparr>]"
  have ka: "list_all (AngleRefs_key_not_nan ?tok ?toD) ?callsa"
    by (simp add: Velocity_def)
  have ke: "list_all (ErrProbRefs_key_not_nan ?tok ?toD) ?callse"
    by (simp add: Reference_def)
  have ha: "AngleRefs_exists ?ca (Velocity \<lparr>myVelocity = Num 30, myAngle = Num 1\<rparr>)"
    by (simp add: Velocity_def)
  have he: "ErrProbRefs_exists ?ce (Reference \<lparr>myRef = Num 30, myErrorProb = Num 1\<rparr>)"
    by (simp add: Reference_def)
  have ra: "AngleRefs_run ?tok ?toD ?callsa [] = Inr ?ca"
    by (simp add: AngleRefs_parse_def AngleRefs_can_parse_def AngleRefs_addSample_def
        AngleRefs_sort_asc_def AngleRefs_compare_asc_def Velocity_def std_sort_def)
  have re: "ErrProbRefs_run ?tok ?toD ?callse [] = Inr ?ce"
    by (simp add: ErrProbRefs_parse_def ErrProbRefs_can_parse_def ErrProbRefs_addSample_def
        ErrProbRefs_sort_asc_def ErrProbRefs_compare_asc_def Reference_def std_sort_def)
  show ?thesis
    using refs_ascending_without_nan [where tok = ?tok and toD = ?toD and calls = ?callsa
        and calls' = ?callse and ca = ?ca and d = "\<lparr>myVelocity = Num 30, myAngle = Num 1\<rparr>"
        and ce = ?ce and e = "\<lparr>myRef = Num 30, myErrorProb = Num 1\<rparr>"] ka ke ha he ra re
    by blast
qed

text \<open>
  Claim C9 as the spec words it fails for a key that is NaN. \<^verbatim>\<open>exists\<close> compares with \<^verbatim>\<open>==\<close>
  and \<^verbatim>\<open>compare_asc\<close> with \<^verbatim>\<open><\<close>, both false on NaN. After \<^verbatim>\<open>addSample\<close> of samples with the
  velocities NaN, 2, NaN and 1 the container holds all four in this order: the second NaN was
  not found to be there, and 2 stands before 1. Whatever a sort does with it, a container
  with a NaN key and another key is not ascending in either order of the two. The same holds
  for \<^verbatim>\<open>ErrProbRefs\<close>.
\<close>

theorem refs_nan_counterexample:
  "AngleRefs_addSample \<lparr>myVelocity = Num 1, myAngle = Num 40\<rparr>
     (AngleRefs_addSample \<lparr>myVelocity = NaN, myAngle = Num 30\<rparr>
       (AngleRefs_addSample \<lparr>myVelocity = Num 2, myAngle = Num 20\<rparr>
         (AngleRefs_addSample \<lparr>myVelocity = NaN, myAngle = Num 10\<rparr> [])))
     = [\<lparr>myVelocity = NaN, myAngle = Num 10\<rparr>, \<lparr>myVelocity = Num 2, myAngle = Num 20\<rparr>,
        \<lparr>myVelocity = NaN, myAngle = Num 30\<rparr>, \<lparr>myVelocity = Num 1, myAngle = Num 40\<rparr>]
   \<and> \<not> sorted_wrt AngleRefs_compare_asc
        [\<lparr>myVelocity = NaN, myAngle = Num 10\<rparr>, \<lparr>myVelocity = Num 2, myAngle = Num 20\<rparr>,
         \<lparr>myVelocity = NaN, myAngle = Num 30\<rparr>, \<lparr>myVelocity = Num 1, myAngle = Num 40\<rparr>]
   \<and> \<not> sorted_wrt AngleRefs_compare_asc
        [\<lparr>myVelocity = Num 1, myAngle = Num 40\<rparr>, \<lparr>myVelocity = NaN, myAngle = Num 10\<rparr>]
   \<and> \<not> sorted_wrt AngleRefs_compare_asc
        [\<lparr>myVelocity = NaN, myAngle = Num 10\<rparr>, \<lparr>myVelocity = Num 1, myAngle = Num 40\<rparr>]
   \<and> ErrProbRefs_addSample \<lparr>myRef = Num 1, myErrorProb = Num 0\<rparr>
     (ErrProbRefs_addSample \<lparr>myRef = NaN, myErrorProb = Num 1\<rparr>
       (ErrProbRefs_addSample \<lparr>myRef = Num 2, myErrorProb = Num 1\<rparr>
         (ErrProbRefs_addSample \<lparr>myRef = NaN, myErrorProb = Num 0\<rparr> [])))
     = [\<lparr>myRef = NaN, myErrorProb = Num 0\<rparr>, \<lparr>myRef = Num 2, myErrorProb = Num 1\<rparr>,
        \<lparr>myRef = NaN, myErrorProb = Num 1\<rparr>, \<lparr>myRef = Num 1, myErrorProb = Num 0\<rparr>]
   \<and> \<not> sorted_wrt ErrProbRefs_compare_asc
        [\<lparr>myRef = NaN, myErrorProb = Num 0\<rparr>, \<lparr>myRef = Num 2, myErrorProb = Num 1\<rparr>,
         \<lparr>myRef = NaN, myErrorProb = Num 1\<rparr>, \<lparr>myRef = Num 1, myErrorProb = Num 0\<rparr>]"
  by (simp add: AngleRefs_addSample_def AngleRefs_sort_asc_def AngleRefs_compare_asc_def
      Velocity_def ErrProbRefs_addSample_def ErrProbRefs_sort_asc_def
      ErrProbRefs_compare_asc_def Reference_def std_sort_def)

text \<open>
  Claim C10. For every string that \<^verbatim>\<open>can_parse\<close> rejects, and for the empty string, \<^verbatim>\<open>parse\<close>
  returns with the container as it was. Only for a non-empty string that \<^verbatim>\<open>can_parse\<close>
  accepts is the container cleared and filled again: the loop then runs through, and what
  it leaves does not depend on what the container held before. This holds for \<^verbatim>\<open>AngleRefs\<close>
  and for \<^verbatim>\<open>ErrProbRefs\<close>.
\<close>

theorem refs_parse_atomic:
  "(\<not> AngleRefs_can_parse tok toD seq \<or> seq = [] \<longrightarrow> AngleRefs_parse tok toD seq ca = Inr ca)
   \<and> (AngleRefs_can_parse tok toD seq \<and> seq \<noteq> [] \<longrightarrow>
        (\<exists>c'. AngleRefs_parse tok toD seq ca = Inr c' \<and> AngleRefs_parse tok toD seq [] = Inr c'))
   \<and> (\<not> ErrProbRefs_can_parse tok toD seq \<or> seq = [] \<longrightarrow>
        ErrProbRefs_parse tok toD seq ce = Inr ce)
   \<and> (ErrProbRefs_can_parse tok toD seq \<and> seq \<noteq> [] \<longrightarrow>
        (\<exists>c'. ErrProbRefs_parse tok toD seq ce = Inr c' \<and> ErrProbRefs_parse tok toD seq [] = Inr c'))"
  using AngleRefs_parse_invalid [of tok toD seq ca] AngleRefs_parse_valid [of tok toD seq ca]
    ErrProbRefs_parse_invalid [of tok toD seq ce] ErrProbRefs_parse_valid [of tok toD seq ce]
  by blast

text \<open>
  With the same tokenizer and reader: the string \<open>30,90;x\<close> is rejected and the empty string
  is empty, so both leave a container with one sample as it was; the string \<open>30,90;10,5\<close>
  is accepted and replaces that sample by its two.
\<close>

theorem refs_parse_atomic_witness:
  "AngleRefs_parse
      (\<lambda>s d b. if s = ''30,90;10,5'' then [''30,90'', ''10,5'']
                else if s = ''30,90;x'' then [''30,90'', ''x'']
                else if s = ''30,90'' then [''30'', ''90'']
                else if s = ''10,5'' then [''10'', ''5''] else [s])
      (\<lambda>s. if s = ''30'' then Some (Num 30) else if s = ''90'' then Some (Num 90)
            else if s = ''10'' then Some (Num 10) else if s = ''5'' then Some (Num 5) else None)
      ''30,90;x'' [\<lparr>myVelocity = Num 50, myAngle = Num 40\<rparr>]
     = Inr [\<lparr>myVelocity = Num 50, myAngle = Num 40\<rparr>]
   \<and> AngleRefs_parse
      (\<lambda>s d b. if s = ''30,90;10,5'' then [''30,90'', ''10,5'']
                else if s = ''30,90;x'' then [''30,90'', ''x'']
                else if s = ''30,90'' then [''30'', ''90'']
                else if s = ''10,5'' then [''10'', ''5''] else [s])
      (\<lambda>s. if s = ''30'' then Some (Num 30) else if s = ''90'' then Some (Num 90)
            else if s = ''10'' then Some (Num 10) else if s = ''5'' then Some (Num 5) else None)
      '''' [\<lparr>myVelocity = Num 50, myAngle = Num 40\<rparr>]
     = Inr [\<lparr>myVelocity = Num 50, myAngle = Num 40\<rparr>]
   \<and> AngleRefs_parse
      (\<lambda>s d b. if s = ''30,90;10,5'' then [''30,90'', ''10,5'']
                else if s = ''30,90;x'' then [''30,90'', ''x'']
                else if s = ''30,90'' then [''30'', ''90'']
                else if s = ''10,5'' then [''10'', ''5''] else [s])
      (\<lambda>s. if s = ''30'' then Some (Num 30) else if s = ''90'' then Some (Num 90)
            else if s = ''10'' then Some (Num 10) else if s = ''5'' then Some (Num 5) else None)
      ''30,90;10,5'' [\<lparr>myVelocity = Num 50, myAngle = Num 40\<rparr>]
     = Inr [\<lparr>myVelocity = Num 10, myAngle = Num 5\<rparr>, \<lparr>myVelocity = Num 30, myAngle = Num 90\<rparr>]
   \<and> ErrProbRefs_parse
      (\<lambda>s d b. if s = ''30,90;10,5'' then [''30,90'', ''10,5'']
                else if s = ''30,90;x'' then [''30,90'', ''x'']
                else if s = ''30,90'' then [''30'', ''90'']
                else if s = ''10,5'' then [''10'', ''5''] else [s])
      (\<lambda>s. if s = ''30'' then Some (Num 30) else if s = ''90'' then Some (Num 90)
            else if s = ''10'' then Some (Num 10) else if s = ''5'' then Some (Num 5) else None)
      ''30,90;x'' [\<lparr>myRef = Num 50, myErrorProb = Num 40\<rparr>]
     = Inr [\<lparr>myRef = Num 50, myErrorProb = Num 40\<rparr>]
   \<and> ErrProbRefs_parse
      (\<lambda>s d b. if s = ''30,90;10,5'' then [''30,90'', ''10,5'']
                else if s = ''30,90;x'' then [''30,90'', ''x'']
                else if s = ''30,90'' then [''30'', ''90'']
                else if s = ''10,5'' then [''10'', ''5''] else [s])
      (\<lambda>s. if s = ''30'' then Some (Num 30) else if s = ''90'' then Some (Num 90)
            else if s = ''10'' then Some (Num 10) else if s = ''5'' then Some (Num 5) else None)
      ''30,90;10,5'' [\<lparr>myRef = Num 50, myErrorProb = Num 40\<rparr>]
     = Inr [\<lparr>myRef = Num 10, myErrorProb = Num 5\<rparr>, \<lparr>myRef = Num 30, myErrorProb = Num 90\<rparr>]"
proof -
  let ?tok = "\<lambda>(s::string) (d::string) (b::bool).
                if s = ''30,90;10,5'' then [''30,90'', ''10,5'']
                else if s = ''30,90;x'' then [''30,90'', ''x'']
                else if s = ''30,90'' then [''30'', ''90'']
                else if s = ''10,5'' then [''10'', ''5''] else [s]"
  let ?toD = "\<lambda>s::string. if s = ''30'' then Some (Num 30) else if s = ''90'' then Some (Num 90)
            else if s = ''10'' then Some (Num 10) else if s = ''5'' then Some (Num 5) else None"
  let ?ca = "[\<lparr>myVelocity = Num 50, myAngle = Num 40\<rparr>]"
  let ?ce = "[\<lparr>myRef = Num 50, myErrorProb = Num 40\<rparr>]"
  have bad_a: "\<not> AngleRefs_can_parse ?tok ?toD ''30,90;x''"
    by (simp add: AngleRefs_can_parse_def)
  have bad_e: "\<not> ErrProbRefs_can_parse ?tok ?toD ''30,90;x''"
    by (simp add: ErrProbRefs_can_parse_def)
  have good_a: "AngleRefs_can_parse ?tok ?toD ''30,90;10,5''"
    by (simp add: AngleRefs_can_parse_def)
  have good_e: "ErrProbRefs_can_parse ?tok ?toD ''30,90;10,5''"
    by (simp add: ErrProbRefs_can_parse_def)
  have new_a: "AngleRefs_parse ?tok ?toD ''30,90;10,5'' []
      = Inr [\<lparr>myVelocity = Num 10, myAngle = Num 5\<rparr>, \<lparr>myVelocity = Num 30, myAngle = Num 90\<rparr>]"
    by (simp add: AngleRefs_parse_def AngleRefs_can_parse_def AngleRefs_addSample_def
        AngleRefs_sort_asc_def AngleRefs_compare_asc_def Velocity_def std_sort_def)
  have new_e: "ErrProbRefs_parse ?tok ?toD ''30,90;10,5'' []
      = Inr [\<lparr>myRef = Num 10, myErrorProb = Num 5\<rparr>, \<lparr>myRef = Num 30, myErrorProb = Num 90\<rparr>]"
    by (simp add: ErrProbRefs_parse_def ErrProbRefs_can_parse_def ErrProbRefs_addSample_def
        ErrProbRefs_sort_asc_def ErrProbRefs_compare_asc_def Reference_def std_sort_def)
  have ne: "''30,90;10,5'' \<noteq> ([]::string)"
    by simp
  show ?thesis
    using refs_parse_atomic [where tok = ?tok and toD = ?toD and seq = "''30,90;x''"
        and ca = ?ca and ce = ?ce]
      refs_parse_atomic [where tok = ?tok and toD = ?toD and seq = "''''"
        and ca = ?ca and ce = ?ce]
      refs_parse_atomic [where tok = ?tok and toD = ?toD and seq = "''30,90;10,5''"
        and ca = ?ca and ce = ?ce]
      bad_a bad_e good_a good_e new_a new_e ne
    by (metis (no_types, lifting))
qed



end
